theory Spec2Isabelle
  imports Complex_Main "HOL-Library.Sublist"
begin

section \<open>Python values, errors and dictionaries\<close>

text \<open>
  The dashboard script \<^verbatim>\<open>Diabetes.py\<close> is one top-to-bottom computation over a
  pandas data frame. The numeric cells of the frame are modelled as real numbers; the
  only non-finite float the script can produce is the not-a-number value that pandas
  returns for a statistic of an empty column, which is the constructor \<open>NaN\<close> below.
  The bundled data set has no missing values, so a cell itself is never \<open>NaN\<close>.
\<close>

datatype pyfloat = NaN | Val real

text \<open>
  The exceptions the script can raise: \<^verbatim>\<open>KeyError\<close> from a dictionary subscript and
  \<^verbatim>\<open>ValueError\<close> from \<^verbatim>\<open>int(float('nan'))\<close>. In Python's exception hierarchy
  \<^verbatim>\<open>KeyError\<close> is a subclass of \<^verbatim>\<open>LookupError\<close>; \<^verbatim>\<open>ValueError\<close> is not.
\<close>

datatype py_error = KeyError string | ValueError

fun is_LookupError :: "py_error \<Rightarrow> bool" where
  "is_LookupError (KeyError k) = True"
| "is_LookupError ValueError = False"

text \<open>
  A Python \<^verbatim>\<open>dict\<close> keeps its items in insertion order: an association list with
  distinct keys. Storing under a key that is present replaces the value in place, storing
  under a new key appends the item.
\<close>

type_synonym ('k, 'v) dict = "('k \<times> 'v) list"

primrec dict_setitem :: "'k \<Rightarrow> 'v \<Rightarrow> ('k, 'v) dict \<Rightarrow> ('k, 'v) dict" where
  "dict_setitem k v [] = [(k, v)]"
| "dict_setitem k v (p # ps) =
     (if fst p = k then (k, v) # ps else p # dict_setitem k v ps)"

definition dict_getitem :: "(string, 'v) dict \<Rightarrow> string \<Rightarrow> py_error + 'v" where
  "dict_getitem d k = (case map_of d k of None \<Rightarrow> Inl (KeyError k) | Some v \<Rightarrow> Inr v)"

definition dict_values :: "('k, 'v) dict \<Rightarrow> 'v list" where
  "dict_values d = map snd d"

definition dict_keys :: "('k, 'v) dict \<Rightarrow> 'k list" where
  "dict_keys d = map fst d"

section \<open>The feature catalog\<close>

text \<open>Lines 22 to 33 of the script: the dictionary literal.\<close>

definition feature_name_map :: "(string, string) dict" where
  "feature_name_map =
     [(''age'', ''Age''),
      (''sex'', ''Sex''),
      (''bmi'', ''Body Mass Index (BMI)''),
      (''bp'', ''Blood Pressure''),
      (''s1'', ''Total Serum Cholesterol (TC)''),
      (''s2'', ''Low-Density Lipoprotein (LDL)''),
      (''s3'', ''High-Density Lipoprotein (HDL)''),
      (''s4'', ''Triglycerides (TG)''),
      (''s5'', ''Serum Glucose''),
      (''s6'', ''Serum TSH'')]"

text \<open>
  Line 35, \<^verbatim>\<open>{v: k for k, v in feature_name_map.items()}\<close>: the comprehension walks
  the items in order and stores each display name as a key.
\<close>

definition readable_to_original :: "(string, string) dict" where
  "readable_to_original =
     foldl (\<lambda>d (k, v). dict_setitem v k d) [] feature_name_map"

text \<open>Line 36.\<close>

definition readable_features :: "string list" where
  "readable_features = dict_values feature_name_map"

text \<open>
  The two translations of the catalog are the subscripts the script writes:
  \<^verbatim>\<open>feature_name_map[id]\<close> (lines 136, 137 and 142) and
  \<^verbatim>\<open>readable_to_original[name]\<close> (lines 85 and 86).
\<close>

definition toDisplay :: "string \<Rightarrow> py_error + string" where
  "toDisplay ident = dict_getitem feature_name_map ident"

definition toIdentifier :: "string \<Rightarrow> py_error + string" where
  "toIdentifier name = dict_getitem readable_to_original name"

section \<open>The base table\<close>

text \<open>
  Lines 14 to 16: the bundled data set, ten feature columns and the target column. The
  data itself is not part of the script, so the loaded table is a parameter: a list of
  rows in the order of the frame's index.
\<close>

record raw_row =
  age :: real
  sex :: real
  bmi :: real
  bp :: real
  s1 :: real
  s2 :: real
  s3 :: real
  s4 :: real
  s5 :: real
  s6 :: real
  target :: real

record row = raw_row +
  sex_cat :: string

text \<open>Line 19: the function applied to every value of the column \<^verbatim>\<open>sex\<close>.\<close>

definition sex_lambda :: "real \<Rightarrow> string" where
  "sex_lambda v = (if v > 0 then ''male'' else ''female'')"

definition add_sex_cat :: "raw_row \<Rightarrow> row" where
  "add_sex_cat r =
     \<lparr>age = age r, sex = sex r, bmi = bmi r, bp = bp r, s1 = s1 r, s2 = s2 r,
      s3 = s3 r, s4 = s4 r, s5 = s5 r, s6 = s6 r, target = target r,
      sex_cat = sex_lambda (sex r)\<rparr>"

definition df :: "raw_row list \<Rightarrow> row list" where
  "df raw = map add_sex_cat raw"

section \<open>Columns, masks and the range filter\<close>

text \<open>
  Lines 105 to 108. The comparison of a column with a scalar gives a column of booleans,
  \<^verbatim>\<open>&\<close> joins two such columns position by position, and subscripting the frame
  with the joined column keeps the rows whose position holds \<^verbatim>\<open>True\<close>. The bounds
  are the two integers of the slider.
\<close>

definition series_ge :: "real list \<Rightarrow> int \<Rightarrow> bool list" where
  "series_ge col b = map (\<lambda>v. v \<ge> real_of_int b) col"

definition series_le :: "real list \<Rightarrow> int \<Rightarrow> bool list" where
  "series_le col b = map (\<lambda>v. v \<le> real_of_int b) col"

definition series_and :: "bool list \<Rightarrow> bool list \<Rightarrow> bool list" where
  "series_and a b = map (\<lambda>(p, q). p \<and> q) (zip a b)"

definition frame_mask :: "'a list \<Rightarrow> bool list \<Rightarrow> 'a list" where
  "frame_mask d keep = map fst (filter snd (zip d keep))"

definition filtered :: "row list \<Rightarrow> int \<times> int \<Rightarrow> row list" where
  "filtered d target_range =
     frame_mask d
       (series_and (series_ge (map target d) (fst target_range))
                   (series_le (map target d) (snd target_range)))"

section \<open>Column statistics\<close>

text \<open>
  The pandas reductions the script calls. Each of them returns not-a-number on a column
  with no value instead of raising; the standard deviation (one delta degree of freedom)
  also does so on a column with a single value.
\<close>

definition series_mean :: "real list \<Rightarrow> pyfloat" where
  "series_mean xs =
     (if length xs > 0 then Val (sum_list xs / real (length xs)) else NaN)"

definition series_min :: "real list \<Rightarrow> pyfloat" where
  "series_min xs = (case xs of [] \<Rightarrow> NaN | x # ys \<Rightarrow> Val (fold min ys x))"

definition series_max :: "real list \<Rightarrow> pyfloat" where
  "series_max xs = (case xs of [] \<Rightarrow> NaN | x # ys \<Rightarrow> Val (fold max ys x))"

definition series_std :: "real list \<Rightarrow> pyfloat" where
  "series_std xs =
     (if length xs \<le> 1 then NaN
      else (let avg = sum_list xs / real (length xs)
            in Val (sqrt (sum_list (map (\<lambda>x. (x - avg)\<^sup>2) xs) / real (length xs - 1)))))"

text \<open>Quantiles interpolate linearly between the two neighbours in the sorted column.\<close>

definition series_quantile :: "real list \<Rightarrow> real \<Rightarrow> pyfloat" where
  "series_quantile xs q =
     (if xs = [] then NaN
      else (let s = sort xs;
                pos = q * real (length xs - 1);
                lo = nat \<lfloor>pos\<rfloor>;
                hi = min (lo + 1) (length xs - 1);
                frac = pos - real lo
            in Val (s ! lo + frac * (s ! hi - s ! lo))))"

text \<open>
  \<^verbatim>\<open>int(x)\<close> of a float truncates towards zero and raises \<^verbatim>\<open>ValueError\<close> on
  not-a-number.
\<close>

fun py_int :: "pyfloat \<Rightarrow> py_error + int" where
  "py_int NaN = Inl ValueError"
| "py_int (Val x) = Inr (if x \<ge> 0 then \<lfloor>x\<rfloor> else \<lceil>x\<rceil>)"

text \<open>Lines 89 and 90: the bounds of the range slider.\<close>

definition min_target :: "row list \<Rightarrow> py_error + int" where
  "min_target d = py_int (series_min (map target d))"

definition max_target :: "row list \<Rightarrow> py_error + int" where
  "max_target d = py_int (series_max (map target d))"

section \<open>Descriptive statistics and category counts\<close>

record summary =
  st_count :: pyfloat
  st_mean :: pyfloat
  st_std :: pyfloat
  st_min :: pyfloat
  st_q25 :: pyfloat
  st_q50 :: pyfloat
  st_q75 :: pyfloat
  st_max :: pyfloat

definition describe_series :: "real list \<Rightarrow> summary" where
  "describe_series xs =
     \<lparr>st_count = Val (real (length xs)),
      st_mean = series_mean xs,
      st_std = series_std xs,
      st_min = series_min xs,
      st_q25 = series_quantile xs (1 / 4),
      st_q50 = series_quantile xs (1 / 2),
      st_q75 = series_quantile xs (3 / 4),
      st_max = series_max xs\<rparr>"

text \<open>Rounding to three decimals, halves to the even neighbour; not-a-number stays.\<close>

definition rint :: "real \<Rightarrow> int" where
  "rint x =
     (let f = \<lfloor>x\<rfloor>; d = x - real_of_int f
      in if d < 1 / 2 then f else if d > 1 / 2 then f + 1
         else if even f then f else f + 1)"

fun round3 :: "pyfloat \<Rightarrow> pyfloat" where
  "round3 NaN = NaN"
| "round3 (Val x) = Val (real_of_int (rint (x * 1000)) / 1000)"

definition summary_round3 :: "summary \<Rightarrow> summary" where
  "summary_round3 s =
     \<lparr>st_count = round3 (st_count s),
      st_mean = round3 (st_mean s),
      st_std = round3 (st_std s),
      st_min = round3 (st_min s),
      st_q25 = round3 (st_q25 s),
      st_q50 = round3 (st_q50 s),
      st_q75 = round3 (st_q75 s),
      st_max = round3 (st_max s)\<rparr>"

text \<open>
  \<^verbatim>\<open>describe()\<close> summarises the numeric columns only, so \<^verbatim>\<open>sex_cat\<close> is left
  out.
\<close>

definition numeric_columns :: "(string \<times> (row \<Rightarrow> real)) list" where
  "numeric_columns =
     [(''age'', age), (''sex'', sex), (''bmi'', bmi), (''bp'', bp), (''s1'', s1),
      (''s2'', s2), (''s3'', s3), (''s4'', s4), (''s5'', s5), (''s6'', s6),
      (''target'', target)]"

text \<open>Line 185.\<close>

definition describe :: "row list \<Rightarrow> (string \<times> summary) list" where
  "describe d =
     map (\<lambda>(name, sel). (name, summary_round3 (describe_series (map sel d))))
       numeric_columns"

text \<open>
  Line 188: every distinct value with the number of its occurrences, the most frequent
  first; values of equal frequency are kept in the order of their first occurrence.
\<close>

definition value_counts :: "string list \<Rightarrow> (string \<times> nat) list" where
  "value_counts xs =
     sort_key (\<lambda>(v, c). - int c)
       (map (\<lambda>v. (v, count_list xs v)) (rev (remdups (rev xs))))"

section \<open>Column selection by name\<close>

datatype cell = Num real | Str string

definition frame_columns :: "string list" where
  "frame_columns =
     [''age'', ''sex'', ''bmi'', ''bp'', ''s1'', ''s2'', ''s3'', ''s4'', ''s5'', ''s6'',
      ''target'', ''sex_cat'']"

definition row_cells :: "row \<Rightarrow> cell list" where
  "row_cells r =
     [Num (age r), Num (sex r), Num (bmi r), Num (bp r), Num (s1 r), Num (s2 r),
      Num (s3 r), Num (s4 r), Num (s5 r), Num (s6 r), Num (target r), Str (sex_cat r)]"

definition row_cell :: "string \<Rightarrow> row \<Rightarrow> cell option" where
  "row_cell c r = map_of (zip frame_columns (row_cells r)) c"

record subframe =
  columns :: "string list"
  cells :: "cell list list"

text \<open>
  \<^verbatim>\<open>frame[names]\<close>: the named columns in the order asked for; a name that is not a
  column raises \<^verbatim>\<open>KeyError\<close>, also on a frame with no rows.
\<close>

definition frame_select :: "string list \<Rightarrow> row list \<Rightarrow> py_error + subframe" where
  "frame_select names d =
     (case filter (\<lambda>c. c \<notin> set frame_columns) names of
        c # cs \<Rightarrow> Inl (KeyError c)
      | [] \<Rightarrow>
          Inr \<lparr>columns = names,
               cells = map (\<lambda>r. List.map_filter (\<lambda>c. row_cell c r) names) d\<rparr>)"

text \<open>
  \<^verbatim>\<open>rename(columns=mapping)\<close>: a column named in the mapping takes its new name, any
  other keeps its own.
\<close>

definition rename_columns :: "(string, string) dict \<Rightarrow> subframe \<Rightarrow> subframe" where
  "rename_columns m f =
     f\<lparr>columns := map (\<lambda>c. case map_of m c of None \<Rightarrow> c | Some n \<Rightarrow> n) (columns f)\<rparr>"

text \<open>Lines 170 and 171.\<close>

definition pair_feats :: "string list" where
  "pair_feats = [''bmi'', ''bp'', ''target'']"

definition small_df :: "row list \<Rightarrow> py_error + subframe" where
  "small_df f =
     (case frame_select pair_feats f of
        Inl e \<Rightarrow> Inl e
      | Inr sel \<Rightarrow> Inr (rename_columns feature_name_map sel))"

section \<open>One run of the script\<close>

text \<open>
  The values the sidebar widgets hand to the script (lines 73 to 102). The widget toolkit
  is not part of the script; its return values are the inputs of a run.
\<close>

record widgets =
  x_feature_readable :: string
  y_feature_readable :: string
  target_range :: "int \<times> int"
  colour_by_sex :: bool
  show_raw :: bool

text \<open>
  What a run hands to the presentation layer: the arguments of the metric, chart and
  table calls. Formatting of the two means to two decimals is left to that layer.
\<close>

record outputs =
  x_feature :: string
  y_feature :: string
  slider_min :: int
  slider_max :: int
  filtered_frame :: "row list"
  metric_rows :: nat
  metric_mean_target :: pyfloat
  metric_mean_bmi :: pyfloat
  scatter_colour :: "string option"
  scatter_x_label :: string
  scatter_y_label :: string
  scatter_title :: string
  hist_values :: "real list"
  pair_frame :: subframe
  pair_dimensions :: "string list"
  describe_table :: "(string \<times> summary) list"
  gender_counts :: "(string \<times> nat) list"
  raw_table :: "row list option"

text \<open>
  The script from line 14 to line 192, statement by statement; the first exception ends
  the run.
\<close>

definition dashboard :: "raw_row list \<Rightarrow> widgets \<Rightarrow> py_error + outputs" where
  "dashboard raw w =
     (let d = df raw in
      case dict_getitem readable_to_original (x_feature_readable w) of
        Inl e \<Rightarrow> Inl e
      | Inr xf \<Rightarrow>
      (case dict_getitem readable_to_original (y_feature_readable w) of
        Inl e \<Rightarrow> Inl e
      | Inr yf \<Rightarrow>
      (case min_target d of
        Inl e \<Rightarrow> Inl e
      | Inr mn \<Rightarrow>
      (case max_target d of
        Inl e \<Rightarrow> Inl e
      | Inr mx \<Rightarrow>
      (let f = filtered d (target_range w) in
      case dict_getitem feature_name_map xf of
        Inl e \<Rightarrow> Inl e
      | Inr xl \<Rightarrow>
      (case dict_getitem feature_name_map yf of
        Inl e \<Rightarrow> Inl e
      | Inr yl \<Rightarrow>
      (case small_df f of
        Inl e \<Rightarrow> Inl e
      | Inr small \<Rightarrow>
          Inr \<lparr>x_feature = xf,
               y_feature = yf,
               slider_min = mn,
               slider_max = mx,
               filtered_frame = f,
               metric_rows = length f,
               metric_mean_target = series_mean (map target f),
               metric_mean_bmi = series_mean (map bmi f),
               scatter_colour = (if colour_by_sex w then Some ''sex_cat'' else None),
               scatter_x_label = xl,
               scatter_y_label = yl,
               scatter_title = xl @ '' vs '' @ yl,
               hist_values = map target f,
               pair_frame = small,
               pair_dimensions = columns small,
               describe_table = describe f,
               gender_counts = value_counts (map sex_cat f),
               raw_table = (if show_raw w then Some (take 200 f) else None)\<rparr>)))))))"

section \<open>Sample tables\<close>

text \<open>
  Small concrete tables on which the theorems below are instantiated. A sample row is
  given by its \<^verbatim>\<open>sex\<close> value and its target; the other features are fixed and
  pairwise different.
\<close>

definition sample_row :: "real \<Rightarrow> real \<Rightarrow> raw_row" where
  "sample_row s t =
     \<lparr>age = 1 / 100, sex = s, bmi = 3 / 100, bp = 4 / 100, s1 = 5 / 100, s2 = 6 / 100,
      s3 = 7 / 100, s4 = 8 / 100, s5 = 9 / 100, s6 = 1 / 10, target = t\<rparr>"

definition scenario_raw :: "raw_row list" where
  "scenario_raw =
     [sample_row (1 / 20) 25, sample_row (- 1 / 20) 50,
      sample_row (1 / 20) 75, sample_row (- 1 / 20) 100]"

text \<open>A table whose greatest target, 346.5, is not a whole number.\<close>

definition fractional_raw :: "raw_row list" where
  "fractional_raw = [sample_row (1 / 20) 25, sample_row (- 1 / 20) (693 / 2)]"

text \<open>Widget values with the two check boxes in their initial state.\<close>

definition sample_widgets :: "string \<Rightarrow> string \<Rightarrow> int \<times> int \<Rightarrow> widgets" where
  "sample_widgets x y r =
     \<lparr>x_feature_readable = x, y_feature_readable = y, target_range = r,
      colour_by_sex = True, show_raw = False\<rparr>"

section \<open>Dictionary lookups\<close>

lemma readable_to_original_items:
  "readable_to_original =
     [(''Age'', ''age''),
      (''Sex'', ''sex''),
      (''Body Mass Index (BMI)'', ''bmi''),
      (''Blood Pressure'', ''bp''),
      (''Total Serum Cholesterol (TC)'', ''s1''),
      (''Low-Density Lipoprotein (LDL)'', ''s2''),
      (''High-Density Lipoprotein (HDL)'', ''s3''),
      (''Triglycerides (TG)'', ''s4''),
      (''Serum Glucose'', ''s5''),
      (''Serum TSH'', ''s6'')]"
  by (simp add: readable_to_original_def feature_name_map_def)

lemma dict_getitem_missing:
  "k \<notin> set (dict_keys d) \<Longrightarrow> dict_getitem d k = Inl (KeyError k)"
  by (simp add: dict_getitem_def dict_keys_def map_of_eq_None_iff split: option.splits)

lemma readable_keys: "dict_keys readable_to_original = readable_features"
  unfolding readable_to_original_items readable_features_def
  by (simp add: dict_keys_def dict_values_def feature_name_map_def)

text \<open>
  C3. The catalog has exactly ten items with pairwise different identifiers and pairwise
  different display names; the inverse dictionary has the same ten items turned round.
  Translating any of the ten identifiers to its display name and back gives the
  identifier, translating any of the ten display names to its identifier and back gives
  the name, and \<^verbatim>\<open>bmi\<close> and \<^verbatim>\<open>Body Mass Index (BMI)\<close> are translated into each
  other.
\<close>

theorem feature_catalog_bijection:
  "length feature_name_map = 10
   \<and> length readable_to_original = 10
   \<and> dict_keys feature_name_map =
       [''age'', ''sex'', ''bmi'', ''bp'', ''s1'', ''s2'', ''s3'', ''s4'', ''s5'', ''s6'']
   \<and> distinct (dict_keys feature_name_map)
   \<and> distinct (dict_values feature_name_map)
   \<and> (\<forall>ident \<in> set (dict_keys feature_name_map).
        \<exists>name. toDisplay ident = Inr name \<and> toIdentifier name = Inr ident)
   \<and> (\<forall>name \<in> set readable_features.
        \<exists>ident. toIdentifier name = Inr ident \<and> toDisplay ident = Inr name)
   \<and> toDisplay ''bmi'' = Inr ''Body Mass Index (BMI)''
   \<and> toIdentifier ''Body Mass Index (BMI)'' = Inr ''bmi''"
  unfolding toDisplay_def toIdentifier_def readable_features_def readable_to_original_items
  by (simp add: feature_name_map_def dict_keys_def dict_values_def dict_getitem_def)

theorem feature_catalog_bijection_witness:
  "''s3'' \<in> set (dict_keys feature_name_map)
   \<and> (\<exists>name. toDisplay ''s3'' = Inr name \<and> toIdentifier name = Inr ''s3'')
   \<and> ''Serum TSH'' \<in> set readable_features
   \<and> (\<exists>ident. toIdentifier ''Serum TSH'' = Inr ident \<and> toDisplay ident = Inr ''Serum TSH'')"
proof -
  have k: "''s3'' \<in> set (dict_keys feature_name_map)"
    by (simp add: dict_keys_def feature_name_map_def)
  have n: "''Serum TSH'' \<in> set readable_features"
    by (simp add: readable_features_def dict_values_def feature_name_map_def)
  from feature_catalog_bijection k n show ?thesis by blast
qed

text \<open>
  C7. A key that is not one of the ten identifiers makes \<open>toDisplay\<close> raise, and a
  string that is not one of the ten display names makes \<open>toIdentifier\<close> raise; the
  exception is the \<^verbatim>\<open>KeyError\<close> of the dictionary subscript, which is a
  \<^verbatim>\<open>LookupError\<close>.
\<close>

theorem unknown_key_LookupError:
  "(k \<notin> set (dict_keys feature_name_map) \<longrightarrow>
      toDisplay k = Inl (KeyError k) \<and> is_LookupError (KeyError k))
   \<and> (n \<notin> set readable_features \<longrightarrow>
      toIdentifier n = Inl (KeyError n) \<and> is_LookupError (KeyError n))"
proof -
  have "toIdentifier n = Inl (KeyError n)" if "n \<notin> set readable_features"
    unfolding toIdentifier_def
    by (rule dict_getitem_missing) (simp add: readable_keys that)
  moreover have "toDisplay k = Inl (KeyError k)"
    if "k \<notin> set (dict_keys feature_name_map)"
    unfolding toDisplay_def using that by (rule dict_getitem_missing)
  ultimately show ?thesis by simp
qed

theorem unknown_key_LookupError_witness:
  "''weight'' \<notin> set (dict_keys feature_name_map)
   \<and> toDisplay ''weight'' = Inl (KeyError ''weight'')
   \<and> is_LookupError (KeyError ''weight'')
   \<and> ''BMI'' \<notin> set readable_features
   \<and> toIdentifier ''BMI'' = Inl (KeyError ''BMI'')
   \<and> is_LookupError (KeyError ''BMI'')"
proof -
  have k: "''weight'' \<notin> set (dict_keys feature_name_map)"
    by (simp add: dict_keys_def feature_name_map_def)
  have n: "''BMI'' \<notin> set readable_features"
    by (simp add: readable_features_def dict_values_def feature_name_map_def)
  from unknown_key_LookupError [of "''weight''" "''BMI''"] k n show ?thesis by simp
qed

section \<open>The derived category column\<close>

text \<open>
  C2. The base table has one row for every row of the loaded data, with the features
  unchanged, and the category of every row is \<^verbatim>\<open>male\<close> when its \<^verbatim>\<open>sex\<close>
  value is greater than zero and \<^verbatim>\<open>female\<close> otherwise. The derivation is a total
  function of the \<^verbatim>\<open>sex\<close> value, so every row has exactly one category.
\<close>

theorem sex_cat_derivation:
  "length (df raw) = length raw
   \<and> (\<forall>i < length raw.
        sex (df raw ! i) = sex (raw ! i)
        \<and> sex_cat (df raw ! i) = (if sex (raw ! i) > 0 then ''male'' else ''female''))
   \<and> (\<forall>r \<in> set (df raw).
        (sex_cat r = ''male'' \<longleftrightarrow> sex r > 0)
        \<and> (sex_cat r = ''female'' \<longleftrightarrow> \<not> sex r > 0))"
  by (auto simp add: df_def add_sex_cat_def sex_lambda_def)

theorem sex_cat_derivation_witness:
  "(1::nat) < length scenario_raw
   \<and> sex (scenario_raw ! 1) = - 1 / 20
   \<and> sex_cat (df scenario_raw ! 1) = ''female''
   \<and> df scenario_raw ! 0 \<in> set (df scenario_raw)
   \<and> sex (df scenario_raw ! 0) = 1 / 20
   \<and> sex_cat (df scenario_raw ! 0) = ''male''"
proof -
  have len: "(1::nat) < length scenario_raw"
    by (simp add: scenario_raw_def)
  have s1: "sex (scenario_raw ! 1) = - 1 / 20"
    by (simp add: scenario_raw_def sample_row_def)
  have mem: "df scenario_raw ! 0 \<in> set (df scenario_raw)"
    by (simp add: scenario_raw_def df_def)
  have s0: "sex (df scenario_raw ! 0) = 1 / 20"
    by (simp add: scenario_raw_def df_def add_sex_cat_def sample_row_def)
  from sex_cat_derivation [of scenario_raw] len
  have "sex_cat (df scenario_raw ! 1) =
      (if sex (scenario_raw ! 1) > 0 then ''male'' else ''female'')"
    by blast
  with s1 have c1: "sex_cat (df scenario_raw ! 1) = ''female''" by simp
  from sex_cat_derivation [of scenario_raw] mem
  have "sex_cat (df scenario_raw ! 0) = ''male'' \<longleftrightarrow> sex (df scenario_raw ! 0) > 0"
    by blast
  with s0 have c0: "sex_cat (df scenario_raw ! 0) = ''male''" by simp
  from len s1 c1 mem s0 c0 show ?thesis by simp
qed

section \<open>The range filter\<close>

lemma series_and_map:
  "series_and (map p xs) (map q xs) = map (\<lambda>x. p x \<and> q x) xs"
  by (induction xs) (simp_all add: series_and_def)

lemma frame_mask_map: "frame_mask d (map p d) = filter p d"
  by (induction d) (simp_all add: frame_mask_def)

lemma filtered_eq_filter:
  "filtered d (lo, hi) =
     filter (\<lambda>r. real_of_int lo \<le> target r \<and> target r \<le> real_of_int hi) d"
  by (simp add: filtered_def series_ge_def series_le_def series_and_map
      frame_mask_map comp_def)

text \<open>
  C1. For all bounds, and so for all bounds with \<open>lo \<le> hi\<close>, the boolean-mask
  selection of the script keeps exactly the rows whose target lies in the closed
  interval from \<open>lo\<close> to \<open>hi\<close>: the result is the table with the other rows
  removed, its rows are those rows of the table that satisfy the predicate, and it is a
  subsequence of the table, so the kept rows stand in their original order. The result
  is a function of the table and the two bounds only.
\<close>

theorem range_filter_exact:
  "filtered d (lo, hi) =
     filter (\<lambda>r. real_of_int lo \<le> target r \<and> target r \<le> real_of_int hi) d
   \<and> set (filtered d (lo, hi)) =
       {r \<in> set d. real_of_int lo \<le> target r \<and> target r \<le> real_of_int hi}
   \<and> subseq (filtered d (lo, hi)) d"
proof -
  have eq: "filtered d (lo, hi) =
      filter (\<lambda>r. real_of_int lo \<le> target r \<and> target r \<le> real_of_int hi) d"
    by (rule filtered_eq_filter)
  have "subseq (filtered d (lo, hi)) d"
    unfolding eq by (rule subseq_filter_left)
  moreover have "set (filtered d (lo, hi)) =
      {r \<in> set d. real_of_int lo \<le> target r \<and> target r \<le> real_of_int hi}"
    unfolding eq by (rule set_filter)
  ultimately show ?thesis using eq by simp
qed

text \<open>
  C8. Filtering the filtered view again with the same bounds changes nothing: the two
  results are the same list, hence the same set of records. This holds for all bounds,
  in particular for \<open>lo \<le> hi\<close> inside the global bounds.
\<close>

theorem range_filter_idempotent:
  "filtered (filtered d (lo, hi)) (lo, hi) = filtered d (lo, hi)"
  by (simp add: filtered_eq_filter)

text \<open>
  C10. With inverted bounds, \<open>hi < lo\<close>, no row satisfies both comparisons and the
  filter returns the empty table. The filter is a total function that returns a table:
  it raises nothing and neither swaps nor clamps the bounds.
\<close>

theorem inverted_range_empty:
  "hi < lo \<Longrightarrow> filtered d (lo, hi) = []"
  by (auto simp add: filtered_eq_filter filter_empty_conv)

theorem inverted_range_empty_witness:
  "(50::int) < 100 \<and> filtered (df scenario_raw) (100, 50) = []"
proof -
  have h: "(50::int) < 100" by simp
  from inverted_range_empty [OF h] h show ?thesis by simp
qed

section \<open>The bounds of the range slider\<close>

lemma series_min_Min: "xs \<noteq> [] \<Longrightarrow> series_min xs = Val (Min (set xs))"
  by (cases xs) (simp_all add: series_min_def Min.set_eq_fold [symmetric])

lemma series_max_Max: "xs \<noteq> [] \<Longrightarrow> series_max xs = Val (Max (set xs))"
  by (cases xs) (simp_all add: series_max_def Max.set_eq_fold [symmetric])

lemma min_target_nonempty:
  "d \<noteq> [] \<Longrightarrow>
     min_target d =
       Inr (if Min (target ` set d) \<ge> 0 then \<lfloor>Min (target ` set d)\<rfloor>
            else \<lceil>Min (target ` set d)\<rceil>)"
  by (simp add: min_target_def series_min_Min)

lemma max_target_nonempty:
  "d \<noteq> [] \<Longrightarrow>
     max_target d =
       Inr (if Max (target ` set d) \<ge> 0 then \<lfloor>Max (target ` set d)\<rfloor>
            else \<lceil>Max (target ` set d)\<rceil>)"
  by (simp add: max_target_def series_max_Max)

lemma filtered_id_iff:
  assumes "d \<noteq> []"
  shows "filtered d (lo, hi) = d \<longleftrightarrow>
     real_of_int lo \<le> Min (target ` set d) \<and> Max (target ` set d) \<le> real_of_int hi"
proof -
  have fin: "finite (target ` set d)" and ne: "target ` set d \<noteq> {}"
    using assms by simp_all
  have "filtered d (lo, hi) = d \<longleftrightarrow>
      (\<forall>r \<in> set d. real_of_int lo \<le> target r \<and> target r \<le> real_of_int hi)"
    by (simp add: filtered_eq_filter filter_id_conv)
  also have "\<dots> \<longleftrightarrow> (\<forall>t \<in> target ` set d. real_of_int lo \<le> t) \<and>
      (\<forall>t \<in> target ` set d. t \<le> real_of_int hi)"
    by auto
  also have "\<dots> \<longleftrightarrow>
      real_of_int lo \<le> Min (target ` set d) \<and> Max (target ` set d) \<le> real_of_int hi"
    using fin ne by (simp add: Min_ge_iff Max_le_iff)
  finally show ?thesis .
qed

lemma int_valued_trunc:
  "x \<in> \<int> \<Longrightarrow> real_of_int (if x \<ge> 0 then \<lfloor>x\<rfloor> else \<lceil>x\<rceil>) = x"
  by (auto elim!: Ints_cases)

lemma df_scenario_targets:
  "map target (df scenario_raw) = [25, 50, 75, 100]"
  by (simp add: scenario_raw_def df_def add_sex_cat_def sample_row_def)

lemma scenario_min: "min_target (df scenario_raw) = Inr 25"
  by (simp add: min_target_def df_scenario_targets series_min_def)

lemma scenario_max: "max_target (df scenario_raw) = Inr 100"
  by (simp add: max_target_def df_scenario_targets series_max_def)

lemma scenario_ints: "\<forall>r \<in> set (df scenario_raw). target r \<in> \<int>"
  by (simp add: scenario_raw_def df_def add_sex_cat_def sample_row_def)

lemma scenario_ne: "df scenario_raw \<noteq> []"
  by (simp add: scenario_raw_def df_def)

text \<open>
  C4, as the script has it. On a table with at least one row the two slider bounds are
  computed without an exception, and filtering with them returns the table unchanged
  exactly when the truncated minimum is not above the least target and the truncated
  maximum is not below the greatest target. That is so whenever every target is a whole
  number, as in the bundled data set.
\<close>

theorem global_bounds_identity:
  assumes "d \<noteq> []"
  shows "\<exists>lo hi. min_target d = Inr lo \<and> max_target d = Inr hi
     \<and> (filtered d (lo, hi) = d \<longleftrightarrow>
          real_of_int lo \<le> Min (target ` set d) \<and> Max (target ` set d) \<le> real_of_int hi)
     \<and> ((\<forall>r \<in> set d. target r \<in> \<int>) \<longrightarrow> filtered d (lo, hi) = d)"
proof -
  let ?T = "target ` set d"
  obtain lo where lo: "min_target d = Inr lo"
    and lo_eq: "lo = (if Min ?T \<ge> 0 then \<lfloor>Min ?T\<rfloor> else \<lceil>Min ?T\<rceil>)"
    using min_target_nonempty [OF assms] by simp
  obtain hi where hi: "max_target d = Inr hi"
    and hi_eq: "hi = (if Max ?T \<ge> 0 then \<lfloor>Max ?T\<rfloor> else \<lceil>Max ?T\<rceil>)"
    using max_target_nonempty [OF assms] by simp
  have iff: "filtered d (lo, hi) = d \<longleftrightarrow>
      real_of_int lo \<le> Min ?T \<and> Max ?T \<le> real_of_int hi"
    by (rule filtered_id_iff [OF assms])
  have ints: "filtered d (lo, hi) = d" if all: "\<forall>r \<in> set d. target r \<in> \<int>"
  proof -
    have fin: "finite ?T" and ne: "?T \<noteq> {}" using assms by simp_all
    have "Min ?T \<in> ?T" and "Max ?T \<in> ?T"
      using fin ne by (rule Min_in, rule Max_in)
    with all have "Min ?T \<in> \<int>" and "Max ?T \<in> \<int>" by auto
    then have "real_of_int lo = Min ?T" and "real_of_int hi = Max ?T"
      unfolding lo_eq hi_eq by (simp_all only: int_valued_trunc)
    with iff show ?thesis by simp
  qed
  from lo hi iff ints show ?thesis by blast
qed

theorem global_bounds_identity_witness:
  "df scenario_raw \<noteq> []
   \<and> min_target (df scenario_raw) = Inr 25
   \<and> max_target (df scenario_raw) = Inr 100
   \<and> filtered (df scenario_raw) (25, 100) = df scenario_raw"
proof -
  obtain lo hi where lo: "min_target (df scenario_raw) = Inr lo"
    and hi: "max_target (df scenario_raw) = Inr hi"
    and imp: "(\<forall>r \<in> set (df scenario_raw). target r \<in> \<int>) \<longrightarrow>
        filtered (df scenario_raw) (lo, hi) = df scenario_raw"
    using global_bounds_identity [OF scenario_ne] by blast
  from lo hi have "lo = 25" and "hi = 100"
    by (simp_all add: scenario_min scenario_max)
  with imp scenario_ints scenario_ne show ?thesis
    by (simp add: scenario_min scenario_max)
qed

text \<open>
  C4, as the claim states it, fails on a table whose greatest target is not a whole
  number: with the targets 25 and 346.5 the bounds are 25 and 346, and the filter drops
  the row of the maximum.
\<close>

theorem global_bounds_drop_maximum:
  "df fractional_raw \<noteq> []
   \<and> min_target (df fractional_raw) = Inr 25
   \<and> max_target (df fractional_raw) = Inr 346
   \<and> filtered (df fractional_raw) (25, 346) \<noteq> df fractional_raw
   \<and> length (filtered (df fractional_raw) (25, 346)) = 1"
  by (simp add: fractional_raw_def df_def add_sex_cat_def sample_row_def
      min_target_def max_target_def series_min_def series_max_def filtered_eq_filter)

section \<open>One run of the script: lemmas\<close>

lemma small_df_eq:
  "small_df f =
     Inr \<lparr>columns = [''Body Mass Index (BMI)'', ''Blood Pressure'', ''target''],
          cells = map (\<lambda>r. [Num (bmi r), Num (bp r), Num (target r)]) f\<rparr>"
  by (simp add: small_df_def frame_select_def pair_feats_def frame_columns_def
      rename_columns_def feature_name_map_def row_cell_def row_cells_def
      List.map_filter_simps)

lemma dashboard_fields:
  assumes "dashboard raw w = Inr out"
  shows "toIdentifier (x_feature_readable w) = Inr (x_feature out)"
    and "toIdentifier (y_feature_readable w) = Inr (y_feature out)"
    and "toDisplay (x_feature out) = Inr (scatter_x_label out)"
    and "toDisplay (y_feature out) = Inr (scatter_y_label out)"
    and "min_target (df raw) = Inr (slider_min out)"
    and "max_target (df raw) = Inr (slider_max out)"
    and "filtered_frame out = filtered (df raw) (target_range w)"
    and "metric_rows out = length (filtered_frame out)"
    and "metric_mean_target out = series_mean (map target (filtered_frame out))"
    and "metric_mean_bmi out = series_mean (map bmi (filtered_frame out))"
    and "hist_values out = map target (filtered_frame out)"
    and "small_df (filtered_frame out) = Inr (pair_frame out)"
    and "pair_dimensions out = columns (pair_frame out)"
    and "describe_table out = describe (filtered_frame out)"
    and "gender_counts out = value_counts (map sex_cat (filtered_frame out))"
  using assms
  by (auto simp add: dashboard_def Let_def toIdentifier_def toDisplay_def
      split: sum.splits)

lemma readable_feature_lookup:
  assumes "n \<in> set readable_features"
  shows "\<exists>k. dict_getitem readable_to_original n = Inr k
     \<and> (\<exists>l. dict_getitem feature_name_map k = Inr l)"
  using assms
  unfolding readable_features_def readable_to_original_items
  by (auto simp add: feature_name_map_def dict_values_def dict_getitem_def)

lemma dashboard_succeeds:
  assumes "x_feature_readable w \<in> set readable_features"
    and "y_feature_readable w \<in> set readable_features"
    and "raw \<noteq> []"
  shows "\<exists>out. dashboard raw w = Inr out"
proof -
  obtain xf xl where xf: "dict_getitem readable_to_original (x_feature_readable w) = Inr xf"
    and xl: "dict_getitem feature_name_map xf = Inr xl"
    using readable_feature_lookup [OF assms(1)] by blast
  obtain yf yl where yf: "dict_getitem readable_to_original (y_feature_readable w) = Inr yf"
    and yl: "dict_getitem feature_name_map yf = Inr yl"
    using readable_feature_lookup [OF assms(2)] by blast
  have ne: "df raw \<noteq> []" using assms(3) by (simp add: df_def)
  obtain mn where mn: "min_target (df raw) = Inr mn"
    using ne by (cases "df raw") (simp_all add: min_target_def series_min_def)
  obtain mx where mx: "max_target (df raw) = Inr mx"
    using ne by (cases "df raw") (simp_all add: max_target_def series_max_def)
  show ?thesis
    by (simp add: dashboard_def Let_def xf xl yf yl mn mx small_df_eq)
qed

lemma scenario_raw_ne: "scenario_raw \<noteq> []"
  by (simp add: scenario_raw_def)

lemma bmi_readable: "''Body Mass Index (BMI)'' \<in> set readable_features"
  by (simp add: readable_features_def dict_values_def feature_name_map_def)

lemma bp_readable: "''Blood Pressure'' \<in> set readable_features"
  by (simp add: readable_features_def dict_values_def feature_name_map_def)

lemma age_readable: "''Age'' \<in> set readable_features"
  by (simp add: readable_features_def dict_values_def feature_name_map_def)

lemma sex_readable: "''Sex'' \<in> set readable_features"
  by (simp add: readable_features_def dict_values_def feature_name_map_def)

lemma age_sex_run:
  "\<exists>out. dashboard scenario_raw (sample_widgets ''Age'' ''Sex'' (50, 50)) = Inr out"
  by (rule dashboard_succeeds)
    (simp_all add: sample_widgets_def age_readable sex_readable scenario_raw_ne)

lemma scenario_50:
  "filtered (df scenario_raw) (50, 50) = [add_sex_cat (sample_row (- 1 / 20) 50)]"
  by (simp add: filtered_eq_filter scenario_raw_def df_def add_sex_cat_def sample_row_def)

lemma scenario_gap: "filtered (df scenario_raw) (26, 49) = []"
  by (simp add: filtered_eq_filter scenario_raw_def df_def add_sex_cat_def sample_row_def)

section \<open>The pairwise matrix\<close>

text \<open>
  C5, as the script has it. Whatever the two axis selections are, a run that completes
  builds the pairwise matrix from exactly three columns of the filtered view, and they
  are always the same three: \<^verbatim>\<open>bmi\<close>, \<^verbatim>\<open>bp\<close> and \<^verbatim>\<open>target\<close>, shown under
  the names \<^verbatim>\<open>Body Mass Index (BMI)\<close>, \<^verbatim>\<open>Blood Pressure\<close> and \<^verbatim>\<open>target\<close>.
  The axis selections take no part in it.
\<close>

theorem pair_view_fixed_columns:
  assumes "dashboard raw w = Inr out"
  shows "pair_feats = [''bmi'', ''bp'', ''target'']
     \<and> pair_dimensions out = [''Body Mass Index (BMI)'', ''Blood Pressure'', ''target'']
     \<and> columns (pair_frame out) = [''Body Mass Index (BMI)'', ''Blood Pressure'', ''target'']
     \<and> length (pair_dimensions out) = 3
     \<and> cells (pair_frame out) =
         map (\<lambda>r. [Num (bmi r), Num (bp r), Num (target r)])
           (filtered (df raw) (target_range w))"
proof -
  have "small_df (filtered_frame out) = Inr (pair_frame out)"
    by (rule dashboard_fields(12) [OF assms])
  then have p: "pair_frame out =
      \<lparr>columns = [''Body Mass Index (BMI)'', ''Blood Pressure'', ''target''],
       cells = map (\<lambda>r. [Num (bmi r), Num (bp r), Num (target r)]) (filtered_frame out)\<rparr>"
    by (simp add: small_df_eq)
  have d: "pair_dimensions out = columns (pair_frame out)"
    by (rule dashboard_fields(13) [OF assms])
  have f: "filtered_frame out = filtered (df raw) (target_range w)"
    by (rule dashboard_fields(7) [OF assms])
  show ?thesis
    by (simp add: pair_feats_def d p f)
qed

theorem pair_view_fixed_columns_witness:
  "\<exists>out. dashboard scenario_raw (sample_widgets ''Age'' ''Sex'' (50, 50)) = Inr out
     \<and> pair_dimensions out = [''Body Mass Index (BMI)'', ''Blood Pressure'', ''target'']
     \<and> length (pair_dimensions out) = 3"
proof -
  obtain out where
    out: "dashboard scenario_raw (sample_widgets ''Age'' ''Sex'' (50, 50)) = Inr out"
    using age_sex_run by blast
  from pair_view_fixed_columns [OF out] out show ?thesis by blast
qed

text \<open>
  C5, as the claim states it, fails when the user selects \<^verbatim>\<open>Age\<close> and \<^verbatim>\<open>Sex\<close>:
  the chosen features are \<^verbatim>\<open>age\<close> and \<^verbatim>\<open>sex\<close>, yet the pairwise matrix holds
  the body mass index and the blood pressure of the one filtered row, not its age and
  sex.
\<close>

theorem pair_view_ignores_axis_selection:
  "map_sum id x_feature (dashboard scenario_raw (sample_widgets ''Age'' ''Sex'' (50, 50)))
     = Inr ''age''
   \<and> map_sum id y_feature (dashboard scenario_raw (sample_widgets ''Age'' ''Sex'' (50, 50)))
     = Inr ''sex''
   \<and> map_sum id pair_frame (dashboard scenario_raw (sample_widgets ''Age'' ''Sex'' (50, 50)))
     = Inr \<lparr>columns = [''Body Mass Index (BMI)'', ''Blood Pressure'', ''target''],
            cells = [[Num (3 / 100), Num (4 / 100), Num 50]]\<rparr>
   \<and> map_sum id (rename_columns feature_name_map)
       (frame_select [''age'', ''sex'', ''target''] (filtered (df scenario_raw) (50, 50)))
     = Inr \<lparr>columns = [''Age'', ''Sex'', ''target''],
            cells = [[Num (1 / 100), Num (- 1 / 20), Num 50]]\<rparr>
   \<and> map_sum id pair_frame (dashboard scenario_raw (sample_widgets ''Age'' ''Sex'' (50, 50)))
     \<noteq> map_sum id (rename_columns feature_name_map)
         (frame_select [''age'', ''sex'', ''target''] (filtered (df scenario_raw) (50, 50)))"
proof -
  let ?w = "sample_widgets ''Age'' ''Sex'' (50, 50)"
  obtain out where out: "dashboard scenario_raw ?w = Inr out"
    using age_sex_run by blast
  have "toIdentifier ''Age'' = Inr (x_feature out)"
    using dashboard_fields(1) [OF out] by (simp add: sample_widgets_def)
  then have x: "x_feature out = ''age''"
    unfolding toIdentifier_def readable_to_original_items
    by (simp add: dict_getitem_def)
  have "toIdentifier ''Sex'' = Inr (y_feature out)"
    using dashboard_fields(2) [OF out] by (simp add: sample_widgets_def)
  then have y: "y_feature out = ''sex''"
    unfolding toIdentifier_def readable_to_original_items
    by (simp add: dict_getitem_def)
  have f: "filtered_frame out = [add_sex_cat (sample_row (- 1 / 20) 50)]"
    using dashboard_fields(7) [OF out] by (simp add: sample_widgets_def scenario_50)
  have "small_df (filtered_frame out) = Inr (pair_frame out)"
    by (rule dashboard_fields(12) [OF out])
  then have p: "pair_frame out =
      \<lparr>columns = [''Body Mass Index (BMI)'', ''Blood Pressure'', ''target''],
       cells = [[Num (3 / 100), Num (4 / 100), Num 50]]\<rparr>"
    by (simp add: small_df_eq f add_sex_cat_def sample_row_def)
  have s: "map_sum id (rename_columns feature_name_map)
       (frame_select [''age'', ''sex'', ''target''] (filtered (df scenario_raw) (50, 50)))
     = Inr \<lparr>columns = [''Age'', ''Sex'', ''target''],
            cells = [[Num (1 / 100), Num (- 1 / 20), Num 50]]\<rparr>"
    by (simp add: scenario_50 frame_select_def frame_columns_def rename_columns_def
        feature_name_map_def row_cell_def row_cells_def add_sex_cat_def sample_row_def)
  show ?thesis
    unfolding s by (simp add: out x y p)
qed

section \<open>Summaries of an empty view\<close>

lemma describe_empty:
  "describe [] =
     map (\<lambda>c. (c, \<lparr>st_count = Val 0, st_mean = NaN, st_std = NaN, st_min = NaN,
                   st_q25 = NaN, st_q50 = NaN, st_q75 = NaN, st_max = NaN\<rparr>))
       [''age'', ''sex'', ''bmi'', ''bp'', ''s1'', ''s2'', ''s3'', ''s4'', ''s5'', ''s6'',
        ''target'']"
  by (simp add: describe_def numeric_columns_def describe_series_def summary_round3_def
      series_mean_def series_std_def series_min_def series_max_def series_quantile_def
      rint_def)

lemma value_counts_empty: "value_counts [] = []"
  by (simp add: value_counts_def)

text \<open>
  C6. When the two axis selections are display names of the catalog, the loaded table has
  a row and no row passes the range filter, the run still completes: the row count is
  zero, the two means are not-a-number, the descriptive statistics of each of the eleven
  numeric columns have count zero and not-a-number everywhere else, and the category
  counts are empty. The statistics are those of the pandas reductions as modelled above;
  the drawing of the charts is outside the model.
\<close>

theorem empty_view_summaries:
  assumes "x_feature_readable w \<in> set readable_features"
    and "y_feature_readable w \<in> set readable_features"
    and "raw \<noteq> []"
    and "filtered (df raw) (target_range w) = []"
  shows "\<exists>out. dashboard raw w = Inr out
     \<and> filtered_frame out = []
     \<and> metric_rows out = 0
     \<and> metric_mean_target out = NaN
     \<and> metric_mean_bmi out = NaN
     \<and> describe_table out =
         map (\<lambda>c. (c, \<lparr>st_count = Val 0, st_mean = NaN, st_std = NaN, st_min = NaN,
                       st_q25 = NaN, st_q50 = NaN, st_q75 = NaN, st_max = NaN\<rparr>))
           [''age'', ''sex'', ''bmi'', ''bp'', ''s1'', ''s2'', ''s3'', ''s4'', ''s5'', ''s6'',
            ''target'']
     \<and> gender_counts out = []"
proof -
  obtain out where out: "dashboard raw w = Inr out"
    using dashboard_succeeds [OF assms(1-3)] by blast
  have f: "filtered_frame out = []"
    using dashboard_fields(7) [OF out] assms(4) by simp
  have "metric_rows out = 0"
    using dashboard_fields(8) [OF out] f by simp
  moreover have "metric_mean_target out = NaN"
    using dashboard_fields(9) [OF out] f by (simp add: series_mean_def)
  moreover have "metric_mean_bmi out = NaN"
    using dashboard_fields(10) [OF out] f by (simp add: series_mean_def)
  moreover have "describe_table out = describe []"
    using dashboard_fields(14) [OF out] f by simp
  moreover have "gender_counts out = []"
    using dashboard_fields(15) [OF out] f by (simp add: value_counts_empty)
  ultimately show ?thesis
    using out f by (simp only: describe_empty exI [of _ out] simp_thms)
qed

theorem empty_view_summaries_witness:
  "''Body Mass Index (BMI)'' \<in> set readable_features
   \<and> ''Blood Pressure'' \<in> set readable_features
   \<and> scenario_raw \<noteq> []
   \<and> filtered (df scenario_raw) (26, 49) = []
   \<and> (\<exists>out. dashboard scenario_raw
          (sample_widgets ''Body Mass Index (BMI)'' ''Blood Pressure'' (26, 49)) = Inr out
        \<and> metric_rows out = 0
        \<and> metric_mean_target out = NaN
        \<and> gender_counts out = [])"
proof -
  let ?w = "sample_widgets ''Body Mass Index (BMI)'' ''Blood Pressure'' (26, 49)"
  have x: "x_feature_readable ?w \<in> set readable_features"
    by (simp add: sample_widgets_def bmi_readable)
  have y: "y_feature_readable ?w \<in> set readable_features"
    by (simp add: sample_widgets_def bp_readable)
  have e: "filtered (df scenario_raw) (target_range ?w) = []"
    by (simp add: sample_widgets_def scenario_gap)
  from empty_view_summaries [OF x y scenario_raw_ne e]
  show ?thesis
    using bmi_readable bp_readable scenario_raw_ne scenario_gap by blast
qed

section \<open>The four-record scenario\<close>

text \<open>
  C9. On every loaded table of four records with the targets 25, 50, 75 and 100 and
  \<^verbatim>\<open>sex\<close> values that are positive, not positive, positive and not positive, the
  filter with the bounds 50 and 100 keeps the records with the targets 50, 75 and 100,
  their categories are \<^verbatim>\<open>female\<close>, \<^verbatim>\<open>male\<close> and \<^verbatim>\<open>female\<close>, the row count is 3
  and the mean target is 75.
\<close>

theorem scenario_filter_50_100:
  assumes "map target raw = [25, 50, 75, 100]"
    and "map (\<lambda>r. sex r > 0) raw = [True, False, True, False]"
  shows "map target (filtered (df raw) (50, 100)) = [50, 75, 100]
     \<and> map sex_cat (filtered (df raw) (50, 100)) = [''female'', ''male'', ''female'']
     \<and> length (filtered (df raw) (50, 100)) = 3
     \<and> series_mean (map target (filtered (df raw) (50, 100))) = Val 75"
proof -
  from assms(1) obtain a b c e where raw: "raw = [a, b, c, e]"
    and t: "target a = 25" "target b = 50" "target c = 75" "target e = 100"
    by (auto simp add: map_eq_Cons_conv)
  from assms(2) raw have s: "sex a > 0" "\<not> sex b > 0" "sex c > 0" "\<not> sex e > 0"
    by simp_all
  have f: "filtered (df raw) (50, 100) = [add_sex_cat b, add_sex_cat c, add_sex_cat e]"
    by (simp add: filtered_eq_filter raw df_def add_sex_cat_def t)
  show ?thesis
    unfolding f using t s
    by (simp add: add_sex_cat_def sex_lambda_def series_mean_def)
qed

theorem scenario_filter_50_100_witness:
  "map target scenario_raw = [25, 50, 75, 100]
   \<and> map (\<lambda>r. sex r > 0) scenario_raw = [True, False, True, False]
   \<and> map target (filtered (df scenario_raw) (50, 100)) = [50, 75, 100]
   \<and> map sex_cat (filtered (df scenario_raw) (50, 100)) = [''female'', ''male'', ''female'']
   \<and> length (filtered (df scenario_raw) (50, 100)) = 3
   \<and> series_mean (map target (filtered (df scenario_raw) (50, 100))) = Val 75"
proof -
  have t: "map target scenario_raw = [25, 50, 75, 100]"
    by (simp add: scenario_raw_def sample_row_def)
  have s: "map (\<lambda>r. sex r > 0) scenario_raw = [True, False, True, False]"
    by (simp add: scenario_raw_def sample_row_def)
  from scenario_filter_50_100 [OF t s] t s show ?thesis by blast
qed

end
